theory Spec2Isabelle
  imports Complex_Main
begin

section \<open>Microgrid planner: the sizing function of app.py\<close>

text \<open>
  The development embeds \<^verbatim>\<open>crf\<close>, \<^verbatim>\<open>round_up_to_step\<close>, \<^verbatim>\<open>fetch_nasa_ghi\<close> and
  \<^verbatim>\<open>size_system\<close> of \<^verbatim>\<open>app.py\<close>.

  Conventions of the embedding:
  \<^item> a Python \<^verbatim>\<open>float\<close> is a \<open>real\<close>: arithmetic is exact, without the rounding of
    binary64, and there is no NaN and no overflow. What is proved is proved of this exact
    arithmetic; a property that turns on the rounding of a double is not stated here.
    The one infinite value the code builds itself, \<^verbatim>\<open>float("inf")\<close>, is the constructor
    \<open>PosInf\<close> of the type \<open>xreal\<close> of the variable \<^verbatim>\<open>lcoe\<close>;
  \<^item> a Python \<^verbatim>\<open>int\<close> is an \<open>int\<close>;
  \<^item> a raised exception is a value \<open>Inl e\<close> of the result type \<open>error + 'a\<close>;
  \<^item> a string is the list of the bytes of its UTF-8 encoding;
  \<^item> the outcome of the HTTP request, the string parser of the builtin \<^verbatim>\<open>float\<close> and the
    builtin \<^verbatim>\<open>repr\<close> of a string are not code of the module: they are the three fields of
    the environment \<open>env\<close>;
  \<^item> the seven cost rates of the module (lines 40 to 47) are the fields of the record
    \<open>costs\<close>, and \<open>module_costs\<close> holds the values the module gives them.
\<close>

subsection \<open>Exceptions and results\<close>

datatype error =
    ValueError string
  | TypeError
  | AttributeError
  | ZeroDivisionError
  | OverflowError
  | StatisticsError
  | RequestError string

definition rbind :: "error + 'a \<Rightarrow> ('a \<Rightarrow> error + 'b) \<Rightarrow> error + 'b" where
  "rbind m f = (case m of Inl e \<Rightarrow> Inl e | Inr x \<Rightarrow> f x)"

datatype xreal = Fin real | PosInf

subsection \<open>Module constants\<close>

definition PR :: real where "PR = 0.75"
definition PANEL_WATTS :: int where "PANEL_WATTS = 400"
definition BATTERY_UNIT_KWH :: real where "BATTERY_UNIT_KWH = 5.0"
definition INVERTER_UTIL_KW_PER_PV :: real where "INVERTER_UTIL_KW_PER_PV = 0.8"
definition GENERATOR_SF :: real where "GENERATOR_SF = 1.25"
definition BATTERY_DOD :: real where "BATTERY_DOD = 0.90"
definition BATTERY_ROUNDTRIP :: real where "BATTERY_ROUNDTRIP = 0.90"
definition BATTERY_EFFECTIVE :: real where
  "BATTERY_EFFECTIVE = BATTERY_DOD * BATTERY_ROUNDTRIP"
definition GEN_SPEC_CONS_L_PER_KWH :: real where "GEN_SPEC_CONS_L_PER_KWH = 0.27"
definition PV_UTILIZATION :: real where "PV_UTILIZATION = 0.90"
definition WACC :: real where "WACC = 0.08"
definition LIFE_PV_YRS :: int where "LIFE_PV_YRS = 20"
definition LIFE_BATT_YRS :: int where "LIFE_BATT_YRS = 10"
definition LIFE_INV_YRS :: int where "LIFE_INV_YRS = 10"
definition LIFE_GEN_YRS :: int where "LIFE_GEN_YRS = 10"

record costs =
  COST_PV_PER_KW :: real
  COST_BATT_PER_KWH :: real
  COST_INV_PER_KW :: real
  COST_GEN_PER_KW :: real
  OM_PV_PER_KW_YR :: real
  OM_BATT_PER_KWH_YR :: real
  OM_GEN_PER_KW_YR :: real

definition module_costs :: costs where
  "module_costs =
     \<lparr> COST_PV_PER_KW = 1200.0, COST_BATT_PER_KWH = 400.0, COST_INV_PER_KW = 200.0,
       COST_GEN_PER_KW = 300.0, OM_PV_PER_KW_YR = 20.0, OM_BATT_PER_KWH_YR = 5.0,
       OM_GEN_PER_KW_YR = 20.0 \<rparr>"

subsection \<open>Builtins the module calls\<close>

text \<open>
  The value \<^verbatim>\<open>resp.json()\<close> returns. An object is the list of its members; a number
  written as an integer is a Python \<^verbatim>\<open>int\<close> (\<open>JInt\<close>), any other number a \<^verbatim>\<open>float\<close>
  (\<open>JNum\<close>). The decoder also accepts the literals NaN and Infinity, which have no
  counterpart among the reals and are left out.
\<close>

datatype json =
    JNull
  | JBool bool
  | JInt int
  | JNum real
  | JStr string
  | JArr "json list"
  | JObj "(string \<times> json) list"

text \<open>
  What the module takes from outside: \<open>http_json e lat lon\<close> is what lines 245 to 248
  give, the decoded body of the response to the request for the point, or the exception of
  \<^verbatim>\<open>requests.get\<close>, \<^verbatim>\<open>raise_for_status\<close> or \<^verbatim>\<open>resp.json\<close>; \<open>str_float e s\<close> is the
  number \<^verbatim>\<open>float(s)\<close> parses from a string, \<open>None\<close> where it raises; \<open>str_repr e s\<close> is
  \<^verbatim>\<open>repr(s)\<close>.
\<close>

record env =
  http_json :: "real \<Rightarrow> real \<Rightarrow> error + json"
  str_float :: "string \<Rightarrow> real option"
  str_repr :: "string \<Rightarrow> string"

text \<open>
  \<^verbatim>\<open>float(v)\<close>: a float is kept; an int is converted, with OverflowError when it rounds
  beyond the largest double (from \<open>2 ^ 1024 - 2 ^ 970\<close> on); a boolean is 1.0 or 0.0; a
  string is parsed, with a ValueError that quotes the string when it does not parse;
  anything else is a TypeError.
\<close>

fun py_float :: "env \<Rightarrow> json \<Rightarrow> error + real" where
  "py_float e (JNum x) = Inr x"
| "py_float e (JInt i) =
     (if \<bar>i\<bar> \<ge> 2 ^ 1024 - 2 ^ 970 then Inl OverflowError else Inr (of_int i))"
| "py_float e (JBool b) = Inr (if b then 1 else 0)"
| "py_float e (JStr s) =
     (case str_float e s of
        Some x \<Rightarrow> Inr x
      | None \<Rightarrow> Inl (ValueError (''could not convert string to float: '' @ str_repr e s)))"
| "py_float e JNull = Inl TypeError"
| "py_float e (JArr xs) = Inl TypeError"
| "py_float e (JObj kvs) = Inl TypeError"

text \<open>\<^verbatim>\<open>d.get(key, default)\<close>; only a dict has the method.\<close>

definition py_get :: "json \<Rightarrow> string \<Rightarrow> json \<Rightarrow> error + json" where
  "py_get d key dflt =
     (case d of
        JObj kvs \<Rightarrow> Inr (case map_of kvs key of Some v \<Rightarrow> v | None \<Rightarrow> dflt)
      | _ \<Rightarrow> Inl AttributeError)"

text \<open>\<^verbatim>\<open>min(xs)\<close> raises ValueError on an empty list.\<close>

fun py_min :: "real list \<Rightarrow> error + real" where
  "py_min [] = Inl (ValueError ''min() arg is an empty sequence'')"
| "py_min (x # xs) = Inr (fold min xs x)"

text \<open>
  \<^verbatim>\<open>statistics.median(data)\<close>: the middle element of the sorted data, or the mean of the
  two middle elements when their number is even.
\<close>

definition median :: "real list \<Rightarrow> error + real" where
  "median data_in =
     (let data = sort data_in; n = length data in
      if n = 0 then Inl StatisticsError
      else if n mod 2 = 1 then Inr (data ! (n div 2))
      else (let i = n div 2 in Inr ((data ! (i - 1) + data ! i) / 2)))"

text \<open>
  \<^verbatim>\<open>round(x, nd)\<close>: the nearest multiple of \<open>10 ^ - nd\<close>, a tie going to the even one.
\<close>

definition round_half_even :: "real \<Rightarrow> int" where
  "round_half_even y =
     (let f = \<lfloor>y\<rfloor>; d = y - of_int f in
      if d < 1 / 2 then f
      else if d > 1 / 2 then f + 1
      else if even f then f else f + 1)"

definition py_round :: "real \<Rightarrow> nat \<Rightarrow> real" where
  "py_round x nd = of_int (round_half_even (x * 10 ^ nd)) / 10 ^ nd"

fun xround :: "xreal \<Rightarrow> nat \<Rightarrow> xreal" where
  "xround (Fin x) nd = Fin (py_round x nd)"
| "xround PosInf nd = PosInf"

subsection \<open>crf and round-up-to-step\<close>

definition crf :: "real \<Rightarrow> int \<Rightarrow> error + real" where
  "crf rate n_years =
     (if rate \<le> 0 then
        (if n_years = 0 then Inl ZeroDivisionError else Inr (1.0 / of_int n_years))
      else
        (let r1 = (1 + rate) powi n_years in
         if r1 - 1 = 0 then Inl ZeroDivisionError else Inr (rate * r1 / (r1 - 1))))"

definition round_up_to_step :: "real \<Rightarrow> real \<Rightarrow> error + real" where
  "round_up_to_step x step =
     (if step = 0 then Inl ZeroDivisionError else Inr (of_int \<lceil>x / step\<rceil> * step))"

subsection \<open>fetch-nasa-ghi\<close>

record nasa =
  monthly :: "(string \<times> json) list"
  values_of :: "real list"

definition months_order :: "string list" where
  "months_order =
     [''JAN'', ''FEB'', ''MAR'', ''APR'', ''MAY'', ''JUN'',
      ''JUL'', ''AUG'', ''SEP'', ''OCT'', ''NOV'', ''DEC'']"

text \<open>
  The comprehension \<^verbatim>\<open>[float(param[m]) for m in months_order if m in param]\<close>: a month
  that is not a key is skipped, the first value \<^verbatim>\<open>float\<close> rejects raises.
\<close>

fun collect_values ::
  "env \<Rightarrow> (string \<times> json) list \<Rightarrow> string list \<Rightarrow> error + real list"
where
  "collect_values e param [] = Inr []"
| "collect_values e param (m # ms) =
     (case map_of param m of
        None \<Rightarrow> collect_values e param ms
      | Some v \<Rightarrow>
          rbind (py_float e v) (\<lambda>x.
          rbind (collect_values e param ms) (\<lambda>xs. Inr (x # xs))))"

definition fetch_nasa_ghi :: "env \<Rightarrow> real \<Rightarrow> real \<Rightarrow> error + nasa" where
  "fetch_nasa_ghi e lat lon =
     rbind (http_json e lat lon) (\<lambda>data.
     rbind (py_get data ''properties'' (JObj [])) (\<lambda>props.
     rbind (py_get props ''parameter'' (JObj [])) (\<lambda>params.
     rbind (py_get params ''ALLSKY_SFC_SW_DWN'' JNull) (\<lambda>param.
       case param of
         JObj kvs \<Rightarrow>
           if kvs = [] then Inl (ValueError ''NASA POWER: missing ALLSKY_SFC_SW_DWN'')
           else
             rbind (collect_values e kvs months_order) (\<lambda>vals.
               if length vals \<noteq> 12
               then Inl (ValueError ''NASA POWER: expected 12 monthly GHI values'')
               else Inr \<lparr> monthly = kvs, values_of = vals \<rparr>)
       | _ \<Rightarrow> Inl (ValueError ''NASA POWER: missing ALLSKY_SFC_SW_DWN'')))))"

subsection \<open>size-system\<close>

text \<open>The four advisory messages of lines 332 to 339.\<close>

definition warn_low_sun :: string where
  "warn_low_sun =
     ''Low winter sun (worst-month GHI < 1.5 kWh/m'' @ [CHR 0xC2, CHR 0xB2] @
     ''/day): expect significant generator runtime.''"

definition warn_seasonality :: string where
  "warn_seasonality =
     ''High seasonality detected: PV capacity increased by 15% for reliability.''"

definition warn_autonomy :: string where
  "warn_autonomy =
     ''For very high renewables targets, consider '' @ [CHR 0xE2, CHR 0x89, CHR 0xA5] @
     ''1 day autonomy for resilience.''"

definition warn_inverter :: string where
  "warn_inverter = ''Inverter undersized vs. peak load; increase inverter rating.''"

text \<open>
  The local variables of \<^verbatim>\<open>size_system\<close> when line 340 is reached: the values before
  the rounding for display.
\<close>

record sizing =
  ghi_worst :: real
  ghi_median :: real
  e_pv_per_kw_day :: real
  seasonality_ratio :: real
  pv_kw :: real
  batt_kwh :: real
  peak_kw :: real
  gen_kw :: real
  inverter_kw :: real
  panel_count :: int
  battery_count :: int
  annual_load :: real
  annual_pv_energy :: real
  served_by_pv_batt :: real
  served_by_gen :: real
  annual_fuel_liters :: real
  annual_fuel_cost :: real
  capex_pv :: real
  capex_batt :: real
  capex_inv :: real
  gen_nameplate_kw :: real
  capex_gen :: real
  capex_total :: real
  annual_om :: real
  annualized_pv :: real
  annualized_batt :: real
  annualized_inv :: real
  annualized_gen :: real
  total_annual_cost :: real
  lcoe :: xreal
  warnings :: "string list"

text \<open>The nested function \<^verbatim>\<open>annualize\<close> of line 319.\<close>

definition annualize :: "real \<Rightarrow> int \<Rightarrow> error + real" where
  "annualize capex life = rbind (crf WACC life) (\<lambda>f. Inr (capex * f))"

text \<open>
  Lines 265 to 339, from the list \<^verbatim>\<open>ghi_vals\<close> on. The names are those of the source;
  \<open>pv_kw0\<close> is \<^verbatim>\<open>pv_kw\<close> between line 274 and the update of line 279.
\<close>

definition size_system_values ::
  "costs \<Rightarrow> real list \<Rightarrow> real \<Rightarrow> real \<Rightarrow> real \<Rightarrow> real \<Rightarrow> real \<Rightarrow> error + sizing"
where
  "size_system_values c ghi_vals load_kwh_day fuel_cost_usd_per_l solar_fraction
       autonomy_days load_factor =
     rbind (py_min ghi_vals) (\<lambda>ghi_worst'.
     rbind (median ghi_vals) (\<lambda>ghi_median'.
     let e_pv_per_kw_day' = ghi_worst' * PR in
     if e_pv_per_kw_day' \<le> 0
     then Inl (ValueError ''Computed zero PV output; invalid GHI.'')
     else
     let pv_kw0 = (load_kwh_day * solar_fraction) / e_pv_per_kw_day';
         seasonality_ratio' = (if ghi_worst' > 0 then ghi_median' / ghi_worst' else 1.0);
         pv_kw' = (if seasonality_ratio' > 1.4 then pv_kw0 * 1.15 else pv_kw0);
         batt_kwh' = (load_kwh_day * autonomy_days) / BATTERY_EFFECTIVE;
         peak_kw' = load_kwh_day / (24.0 * max 0.05 load_factor);
         gen_kw' = GENERATOR_SF * peak_kw';
         inverter_kw' = max peak_kw' (INVERTER_UTIL_KW_PER_PV * pv_kw');
         panel_count' = \<lceil>pv_kw' * 1000.0 / of_int PANEL_WATTS\<rceil>;
         battery_count' = \<lceil>batt_kwh' / BATTERY_UNIT_KWH\<rceil>;
         annual_load' = load_kwh_day * 365.0;
         annual_pv_energy' = pv_kw' * e_pv_per_kw_day' * 365.0;
         served_by_pv_batt' = min annual_load' annual_pv_energy' * PV_UTILIZATION;
         served_by_gen' = max 0.0 (annual_load' - served_by_pv_batt');
         liters_per_kwh = GEN_SPEC_CONS_L_PER_KWH;
         annual_fuel_liters' = served_by_gen' * liters_per_kwh;
         annual_fuel_cost' = annual_fuel_liters' * fuel_cost_usd_per_l;
         capex_pv' = pv_kw' * COST_PV_PER_KW c;
         capex_batt' = batt_kwh' * COST_BATT_PER_KWH c;
         capex_inv' = inverter_kw' * COST_INV_PER_KW c
     in
     rbind (round_up_to_step gen_kw' 5.0) (\<lambda>gen_nameplate_kw'.
     let capex_gen' = gen_nameplate_kw' * COST_GEN_PER_KW c;
         capex_total' = capex_pv' + capex_batt' + capex_inv' + capex_gen';
         annual_om' = (pv_kw' * OM_PV_PER_KW_YR c) + (batt_kwh' * OM_BATT_PER_KWH_YR c)
                      + (gen_nameplate_kw' * OM_GEN_PER_KW_YR c)
     in
     rbind (annualize capex_pv' LIFE_PV_YRS) (\<lambda>annualized_pv'.
     rbind (annualize capex_batt' LIFE_BATT_YRS) (\<lambda>annualized_batt'.
     rbind (annualize capex_inv' LIFE_INV_YRS) (\<lambda>annualized_inv'.
     rbind (annualize capex_gen' LIFE_GEN_YRS) (\<lambda>annualized_gen'.
     let total_annual_cost' = annualized_pv' + annualized_batt' + annualized_inv'
                              + annualized_gen' + annual_om' + annual_fuel_cost';
         lcoe' = (if annual_load' > 0 then Fin (total_annual_cost' / annual_load')
                  else PosInf);
         warnings' =
           (if ghi_worst' < 1.5 then [warn_low_sun] else []) @
           (if seasonality_ratio' > 1.4 then [warn_seasonality] else []) @
           (if solar_fraction \<ge> 0.95 \<and> autonomy_days < 1.0 then [warn_autonomy] else []) @
           (if inverter_kw' < peak_kw' then [warn_inverter] else [])
     in
     Inr \<lparr> ghi_worst = ghi_worst', ghi_median = ghi_median',
           e_pv_per_kw_day = e_pv_per_kw_day', seasonality_ratio = seasonality_ratio',
           pv_kw = pv_kw', batt_kwh = batt_kwh', peak_kw = peak_kw', gen_kw = gen_kw',
           inverter_kw = inverter_kw', panel_count = panel_count',
           battery_count = battery_count', annual_load = annual_load',
           annual_pv_energy = annual_pv_energy', served_by_pv_batt = served_by_pv_batt',
           served_by_gen = served_by_gen', annual_fuel_liters = annual_fuel_liters',
           annual_fuel_cost = annual_fuel_cost', capex_pv = capex_pv',
           capex_batt = capex_batt', capex_inv = capex_inv',
           gen_nameplate_kw = gen_nameplate_kw', capex_gen = capex_gen',
           capex_total = capex_total', annual_om = annual_om',
           annualized_pv = annualized_pv', annualized_batt = annualized_batt',
           annualized_inv = annualized_inv', annualized_gen = annualized_gen',
           total_annual_cost = total_annual_cost', lcoe = lcoe',
           warnings = warnings' \<rparr>)))))))"

text \<open>
  The dictionary lines 345 to 376 build: the field \<open>out_k\<close> is the entry of key \<^verbatim>\<open>k\<close>.
\<close>

record result =
  out_ghi_worst :: real
  out_ghi_median :: real
  out_e_pv_per_kw_day :: real
  out_pv_kw :: real
  out_batt_kwh :: real
  out_inverter_kw :: real
  out_gen_kw :: real
  out_panel_count :: int
  out_panel_w :: int
  out_battery_count :: int
  out_battery_unit_kwh :: real
  out_annual_load :: real
  out_annual_pv_energy :: real
  out_served_by_pv_batt :: real
  out_served_by_gen :: real
  out_annual_fuel_liters :: real
  out_annual_fuel_cost :: real
  out_capex_pv :: real
  out_capex_batt :: real
  out_capex_inv :: real
  out_capex_gen :: real
  out_capex_total :: real
  out_annual_om :: real
  out_annualized_pv :: real
  out_annualized_batt :: real
  out_annualized_inv :: real
  out_annualized_gen :: real
  out_total_annual_cost :: real
  out_lcoe :: xreal
  out_warnings :: "string list"

text \<open>The nested function \<^verbatim>\<open>rnd\<close> of line 342.\<close>

definition rnd :: "real \<Rightarrow> nat \<Rightarrow> real" where
  "rnd x nd = py_round x nd"

definition size_system_result :: "sizing \<Rightarrow> result" where
  "size_system_result v =
     \<lparr> out_ghi_worst = rnd (ghi_worst v) 2,
       out_ghi_median = rnd (ghi_median v) 2,
       out_e_pv_per_kw_day = rnd (e_pv_per_kw_day v) 3,
       out_pv_kw = rnd (pv_kw v) 1,
       out_batt_kwh = rnd (batt_kwh v) 0,
       out_inverter_kw = rnd (inverter_kw v) 0,
       out_gen_kw = rnd (gen_nameplate_kw v) 0,
       out_panel_count = panel_count v,
       out_panel_w = PANEL_WATTS,
       out_battery_count = battery_count v,
       out_battery_unit_kwh = BATTERY_UNIT_KWH,
       out_annual_load = rnd (annual_load v) 0,
       out_annual_pv_energy = rnd (annual_pv_energy v) 0,
       out_served_by_pv_batt = rnd (served_by_pv_batt v) 0,
       out_served_by_gen = rnd (served_by_gen v) 0,
       out_annual_fuel_liters = rnd (annual_fuel_liters v) 0,
       out_annual_fuel_cost = rnd (annual_fuel_cost v) 0,
       out_capex_pv = rnd (capex_pv v) 0,
       out_capex_batt = rnd (capex_batt v) 0,
       out_capex_inv = rnd (capex_inv v) 0,
       out_capex_gen = rnd (capex_gen v) 0,
       out_capex_total = rnd (capex_total v) 0,
       out_annual_om = rnd (annual_om v) 0,
       out_annualized_pv = rnd (annualized_pv v) 0,
       out_annualized_batt = rnd (annualized_batt v) 0,
       out_annualized_inv = rnd (annualized_inv v) 0,
       out_annualized_gen = rnd (annualized_gen v) 0,
       out_total_annual_cost = rnd (total_annual_cost v) 0,
       out_lcoe = xround (lcoe v) 2,
       out_warnings = warnings v \<rparr>"

text \<open>
  \<^verbatim>\<open>size_system\<close>: the fetch of line 263, the computation, the dictionary. The cost table
  and the environment come first; the module itself runs with \<open>module_costs\<close>.
\<close>

definition size_system ::
  "costs \<Rightarrow> env \<Rightarrow> real \<Rightarrow> real \<Rightarrow> real \<Rightarrow> real \<Rightarrow> real \<Rightarrow> real \<Rightarrow> real \<Rightarrow> error + result"
where
  "size_system c e lat lon load_kwh_day fuel_cost_usd_per_l solar_fraction
       autonomy_days load_factor =
     rbind (fetch_nasa_ghi e lat lon) (\<lambda>nasa.
     rbind (size_system_values c (values_of nasa) load_kwh_day fuel_cost_usd_per_l
              solar_fraction autonomy_days load_factor) (\<lambda>v.
     Inr (size_system_result v)))"

subsection \<open>Provider responses for concrete runs\<close>

text \<open>
  A response of the shape the provider documents, with the twelve monthly values given in
  calendar order, and an environment that always answers with it.
\<close>

definition provider_response :: "real list \<Rightarrow> json" where
  "provider_response vals =
     JObj [(''properties'',
       JObj [(''parameter'',
         JObj [(''ALLSKY_SFC_SW_DWN'', JObj (zip months_order (map JNum vals)))])])]"

definition provider_env :: "real list \<Rightarrow> env" where
  "provider_env vals =
     \<lparr> http_json = (\<lambda>lat lon. Inr (provider_response vals)), str_float = (\<lambda>s. None),
       str_repr = (\<lambda>s. [CHR 0x27] @ s @ [CHR 0x27]) \<rparr>"



definition mild_ghi :: "real list" where
  "mild_ghi = [6.5, 6.0, 5.5, 5.0, 4.5, 4.2, 4.0, 4.4, 4.5, 4.6, 4.5, 4.5]"

definition seasonal_ghi :: "real list" where
  "seasonal_ghi = [2.0, 2.5, 3.0, 3.5, 4.0, 4.0, 4.0, 4.0, 3.5, 3.0, 2.5, 2.2]"

definition polar_ghi :: "real list" where
  "polar_ghi = [0.0, 0.4, 1.5, 3.0, 4.5, 5.0, 4.8, 3.5, 2.0, 0.8, 0.1, 0.0]"

section \<open>Properties\<close>

subsection \<open>Auxiliary facts\<close>

lemma crf_pos:
  assumes "0 < rate" "0 < n"
  shows "\<exists>f. crf rate n = Inr f \<and> 0 < f"
proof -
  have b: "1 < 1 + rate" using assms by simp
  have "(1 + rate) powi n = (1 + rate) ^ nat n" using assms by (simp add: power_int_def)
  moreover have "1 < (1 + rate) ^ nat n" using b assms by (simp add: one_less_power)
  ultimately have r: "1 < (1 + rate) powi n" by simp
  then have "0 < rate * ((1 + rate) powi n) / ((1 + rate) powi n - 1)"
    using assms by simp
  then show ?thesis using r assms by (simp add: crf_def Let_def)
qed

lemma annualize_ok:
  assumes "0 < life"
  shows "\<exists>f. 0 < f \<and> (\<forall>x. annualize x life = Inr (x * f))"
proof -
  obtain f where "crf WACC life = Inr f" "0 < f"
    using crf_pos [of WACC life] assms by (auto simp: WACC_def)
  then show ?thesis by (auto simp: annualize_def rbind_def)
qed

lemma round_up_5: "round_up_to_step x 5.0 = Inr (of_int \<lceil>x / 5.0\<rceil> * 5.0)"
  by (simp add: round_up_to_step_def)

text \<open>
  Every local variable of a run that returns, in terms of the inputs and of the variables
  assigned before it, as the source computes it.
\<close>

lemma size_values_fields:
  assumes "size_system_values c ghi ld fuel sf aut lf = Inr v"
  shows v_min: "py_min ghi = Inr (ghi_worst v)"
    and v_median: "median ghi = Inr (ghi_median v)"
    and v_worst_pos: "0 < ghi_worst v"
    and v_e_pv: "e_pv_per_kw_day v = ghi_worst v * PR"
    and v_ratio: "seasonality_ratio v = ghi_median v / ghi_worst v"
    and v_pv_kw: "pv_kw v = (if seasonality_ratio v > 1.4
                  then (ld * sf) / e_pv_per_kw_day v * 1.15
                  else (ld * sf) / e_pv_per_kw_day v)"
    and v_batt_kwh: "batt_kwh v = (ld * aut) / BATTERY_EFFECTIVE"
    and v_peak_kw: "peak_kw v = ld / (24.0 * max 0.05 lf)"
    and v_gen_kw: "gen_kw v = GENERATOR_SF * peak_kw v"
    and v_inverter_kw: "inverter_kw v = max (peak_kw v) (INVERTER_UTIL_KW_PER_PV * pv_kw v)"
    and v_panel_count: "panel_count v = \<lceil>pv_kw v * 1000.0 / of_int PANEL_WATTS\<rceil>"
    and v_battery_count: "battery_count v = \<lceil>batt_kwh v / BATTERY_UNIT_KWH\<rceil>"
    and v_annual_load: "annual_load v = ld * 365.0"
    and v_annual_pv_energy: "annual_pv_energy v = pv_kw v * e_pv_per_kw_day v * 365.0"
    and v_served_by_pv_batt: "served_by_pv_batt v = min (annual_load v) (annual_pv_energy v) * PV_UTILIZATION"
    and v_served_by_gen: "served_by_gen v = max 0.0 (annual_load v - served_by_pv_batt v)"
    and v_annual_fuel_liters: "annual_fuel_liters v = served_by_gen v * GEN_SPEC_CONS_L_PER_KWH"
    and v_annual_fuel_cost: "annual_fuel_cost v = annual_fuel_liters v * fuel"
    and v_capex_pv: "capex_pv v = pv_kw v * COST_PV_PER_KW c"
    and v_capex_batt: "capex_batt v = batt_kwh v * COST_BATT_PER_KWH c"
    and v_capex_inv: "capex_inv v = inverter_kw v * COST_INV_PER_KW c"
    and v_gen_nameplate_kw: "gen_nameplate_kw v = of_int \<lceil>gen_kw v / 5.0\<rceil> * 5.0"
    and v_capex_gen: "capex_gen v = gen_nameplate_kw v * COST_GEN_PER_KW c"
    and v_capex_total: "capex_total v = capex_pv v + capex_batt v + capex_inv v + capex_gen v"
    and v_annual_om: "annual_om v = (pv_kw v * OM_PV_PER_KW_YR c) + (batt_kwh v * OM_BATT_PER_KWH_YR c)
                      + (gen_nameplate_kw v * OM_GEN_PER_KW_YR c)"
    and v_annualized_pv: "annualize (capex_pv v) LIFE_PV_YRS = Inr (annualized_pv v)"
    and v_annualized_batt: "annualize (capex_batt v) LIFE_BATT_YRS = Inr (annualized_batt v)"
    and v_annualized_inv: "annualize (capex_inv v) LIFE_INV_YRS = Inr (annualized_inv v)"
    and v_annualized_gen: "annualize (capex_gen v) LIFE_GEN_YRS = Inr (annualized_gen v)"
    and v_total_annual_cost: "total_annual_cost v = annualized_pv v + annualized_batt v + annualized_inv v
                              + annualized_gen v + annual_om v + annual_fuel_cost v"
    and v_lcoe: "lcoe v = (if annual_load v > 0 then Fin (total_annual_cost v / annual_load v)
                 else PosInf)"
    and v_warnings: "warnings v =
           (if ghi_worst v < 1.5 then [warn_low_sun] else []) @
           (if seasonality_ratio v > 1.4 then [warn_seasonality] else []) @
           (if sf \<ge> 0.95 \<and> aut < 1.0 then [warn_autonomy] else []) @
           (if inverter_kw v < peak_kw v then [warn_inverter] else [])"
proof -
  obtain f20 where f20: "\<And>x. annualize x LIFE_PV_YRS = Inr (x * f20)"
    using annualize_ok [of LIFE_PV_YRS] by (auto simp: LIFE_PV_YRS_def)
  obtain f10b where f10b: "\<And>x. annualize x LIFE_BATT_YRS = Inr (x * f10b)"
    using annualize_ok [of LIFE_BATT_YRS] by (auto simp: LIFE_BATT_YRS_def)
  obtain f10i where f10i: "\<And>x. annualize x LIFE_INV_YRS = Inr (x * f10i)"
    using annualize_ok [of LIFE_INV_YRS] by (auto simp: LIFE_INV_YRS_def)
  obtain f10g where f10g: "\<And>x. annualize x LIFE_GEN_YRS = Inr (x * f10g)"
    using annualize_ok [of LIFE_GEN_YRS] by (auto simp: LIFE_GEN_YRS_def)
  from assms obtain w m where w: "py_min ghi = Inr w" and m: "median ghi = Inr m"
    by (auto simp: size_system_values_def rbind_def split: sum.splits)
  have e: "\<not> w * PR \<le> 0"
  proof
    assume "w * PR \<le> 0"
    then have "size_system_values c ghi ld fuel sf aut lf
                 = Inl (ValueError ''Computed zero PV output; invalid GHI.'')"
      using w m by (simp add: size_system_values_def rbind_def)
    with assms show False by simp
  qed
  then have wpos: "0 < w" by (simp add: PR_def not_le zero_less_mult_iff)
  note veq = assms [unfolded size_system_values_def rbind_def w m sum.case Let_def
      if_not_P [OF e] if_P [OF wpos] round_up_5 f20 f10b f10i f10g sum.inject]
  show "py_min ghi = Inr (ghi_worst v)"
    "median ghi = Inr (ghi_median v)"
    "0 < ghi_worst v"
    "e_pv_per_kw_day v = ghi_worst v * PR"
    "seasonality_ratio v = ghi_median v / ghi_worst v"
    "pv_kw v = (if seasonality_ratio v > 1.4
                  then (ld * sf) / e_pv_per_kw_day v * 1.15
                  else (ld * sf) / e_pv_per_kw_day v)"
    "batt_kwh v = (ld * aut) / BATTERY_EFFECTIVE"
    "peak_kw v = ld / (24.0 * max 0.05 lf)"
    "gen_kw v = GENERATOR_SF * peak_kw v"
    "inverter_kw v = max (peak_kw v) (INVERTER_UTIL_KW_PER_PV * pv_kw v)"
    "panel_count v = \<lceil>pv_kw v * 1000.0 / of_int PANEL_WATTS\<rceil>"
    "battery_count v = \<lceil>batt_kwh v / BATTERY_UNIT_KWH\<rceil>"
    "annual_load v = ld * 365.0"
    "annual_pv_energy v = pv_kw v * e_pv_per_kw_day v * 365.0"
    "served_by_pv_batt v = min (annual_load v) (annual_pv_energy v) * PV_UTILIZATION"
    "served_by_gen v = max 0.0 (annual_load v - served_by_pv_batt v)"
    "annual_fuel_liters v = served_by_gen v * GEN_SPEC_CONS_L_PER_KWH"
    "annual_fuel_cost v = annual_fuel_liters v * fuel"
    "capex_pv v = pv_kw v * COST_PV_PER_KW c"
    "capex_batt v = batt_kwh v * COST_BATT_PER_KWH c"
    "capex_inv v = inverter_kw v * COST_INV_PER_KW c"
    "gen_nameplate_kw v = of_int \<lceil>gen_kw v / 5.0\<rceil> * 5.0"
    "capex_gen v = gen_nameplate_kw v * COST_GEN_PER_KW c"
    "capex_total v = capex_pv v + capex_batt v + capex_inv v + capex_gen v"
    "annual_om v = (pv_kw v * OM_PV_PER_KW_YR c) + (batt_kwh v * OM_BATT_PER_KWH_YR c)
                      + (gen_nameplate_kw v * OM_GEN_PER_KW_YR c)"
    "annualize (capex_pv v) LIFE_PV_YRS = Inr (annualized_pv v)"
    "annualize (capex_batt v) LIFE_BATT_YRS = Inr (annualized_batt v)"
    "annualize (capex_inv v) LIFE_INV_YRS = Inr (annualized_inv v)"
    "annualize (capex_gen v) LIFE_GEN_YRS = Inr (annualized_gen v)"
    "total_annual_cost v = annualized_pv v + annualized_batt v + annualized_inv v
                              + annualized_gen v + annual_om v + annual_fuel_cost v"
    "lcoe v = (if annual_load v > 0 then Fin (total_annual_cost v / annual_load v)
                 else PosInf)"
    "warnings v =
           (if ghi_worst v < 1.5 then [warn_low_sun] else []) @
           (if seasonality_ratio v > 1.4 then [warn_seasonality] else []) @
           (if sf \<ge> 0.95 \<and> aut < 1.0 then [warn_autonomy] else []) @
           (if inverter_kw v < peak_kw v then [warn_inverter] else [])"
    unfolding veq [symmetric] sizing.select_convs
    by (rule refl w m wpos f20 f10b f10i f10g)+
qed

lemma size_values_ok:
  assumes "py_min ghi = Inr w" "median ghi = Inr m" "0 < w"
  shows "\<exists>v. size_system_values c ghi ld fuel sf aut lf = Inr v"
proof -
  obtain f20 where f20: "\<And>x. annualize x LIFE_PV_YRS = Inr (x * f20)"
    using annualize_ok [of LIFE_PV_YRS] by (auto simp: LIFE_PV_YRS_def)
  obtain f10b where f10b: "\<And>x. annualize x LIFE_BATT_YRS = Inr (x * f10b)"
    using annualize_ok [of LIFE_BATT_YRS] by (auto simp: LIFE_BATT_YRS_def)
  obtain f10i where f10i: "\<And>x. annualize x LIFE_INV_YRS = Inr (x * f10i)"
    using annualize_ok [of LIFE_INV_YRS] by (auto simp: LIFE_INV_YRS_def)
  obtain f10g where f10g: "\<And>x. annualize x LIFE_GEN_YRS = Inr (x * f10g)"
    using annualize_ok [of LIFE_GEN_YRS] by (auto simp: LIFE_GEN_YRS_def)
  have e: "\<not> w * PR \<le> 0" using assms(3) by (simp add: PR_def)
  show ?thesis
    unfolding size_system_values_def rbind_def assms(1,2) sum.case Let_def
      if_not_P [OF e] round_up_5 f20 f10b f10i f10g
    by (rule exI, rule refl)
qed

lemma size_values_zero_pv:
  assumes "py_min ghi = Inr w" "median ghi = Inr m" "w \<le> 0"
  shows "size_system_values c ghi ld fuel sf aut lf
           = Inl (ValueError ''Computed zero PV output; invalid GHI.'')"
proof -
  have "w * PR \<le> 0" using assms(3) by (simp add: PR_def mult_le_0_iff)
  then show ?thesis using assms(1,2) by (simp add: size_system_values_def rbind_def)
qed

lemma py_min_Min: "xs \<noteq> [] \<Longrightarrow> py_min xs = Inr (Min (set xs))"
proof (cases xs)
  case Nil
  assume "xs \<noteq> []"
  with Nil show ?thesis by simp
next
  case (Cons a list)
  show ?thesis unfolding Cons by (simp only: py_min.simps Min.set_eq_fold)
qed

lemma median_ok:
  assumes "xs \<noteq> []"
  shows "\<exists>m. median xs = Inr m"
proof -
  have n: "length (sort xs) \<noteq> 0" using assms by simp
  have ex: "\<exists>m. (if b then Inr x else Inr y) = (Inr m :: error + real)" for b x y
    by (cases b) (simp_all only: if_True if_False, blast+)
  show ?thesis
    unfolding median_def Let_def if_not_P [OF n] by (rule ex)
qed


lemma fetch_length:
  assumes "fetch_nasa_ghi e lat lon = Inr n"
  shows "length (values_of n) = 12"
  using assms
  by (auto simp: fetch_nasa_ghi_def rbind_def split: sum.splits json.splits if_splits)


lemma size_system_run:
  assumes "fetch_nasa_ghi e lat lon = Inr n"
      and "size_system_values c (values_of n) ld fuel sf aut lf = Inr v"
  shows "size_system c e lat lon ld fuel sf aut lf = Inr (size_system_result v)"
  using assms by (simp add: size_system_def rbind_def)

lemma valid_run:
  assumes "fetch_nasa_ghi e lat lon = Inr n" and "\<forall>x\<in>set (values_of n). 0 < x"
  shows "\<exists>v. size_system_values c (values_of n) ld fuel sf aut lf = Inr v
            \<and> size_system c e lat lon ld fuel sf aut lf = Inr (size_system_result v)"
proof -
  have ne: "values_of n \<noteq> []" using fetch_length [OF assms(1)] by auto
  then have "Min (set (values_of n)) \<in> set (values_of n)" by simp
  then have pos: "0 < Min (set (values_of n))" using assms(2) by blast
  obtain m where m: "median (values_of n) = Inr m" using median_ok [OF ne] by blast
  obtain v where v: "size_system_values c (values_of n) ld fuel sf aut lf = Inr v"
    using size_values_ok [OF py_min_Min [OF ne] m pos] by blast
  show ?thesis using v size_system_run [OF assms(1) v] by blast
qed

lemma round_half_even_of_int: "round_half_even (of_int j) = j"
  by (simp add: round_half_even_def)

lemma rnd0_of_int: "rnd (of_int j) 0 = of_int j"
  by (simp add: rnd_def py_round_def round_half_even_of_int)

lemma warn_distinct:
  "warn_seasonality \<noteq> warn_low_sun" "warn_seasonality \<noteq> warn_autonomy"
  "warn_seasonality \<noteq> warn_inverter"
  by (simp_all add: warn_seasonality_def warn_low_sun_def warn_autonomy_def warn_inverter_def)

lemma size_values_no_zero_division:
  "size_system_values c ghi ld fuel sf aut lf \<noteq> Inl ZeroDivisionError"
proof (cases "py_min ghi")
  case (Inl err)
  then have "ghi = []" by (cases ghi) simp_all
  then show ?thesis by (simp add: size_system_values_def rbind_def)
next
  case (Inr w)
  then have ne: "ghi \<noteq> []" by (cases ghi) simp_all
  obtain m where m: "median ghi = Inr m" using median_ok [OF ne] by blast
  show ?thesis
  proof (cases "w \<le> 0")
    case True
    show ?thesis unfolding size_values_zero_pv [OF Inr m True] by simp
  next
    case False
    then have "0 < w" by simp
    then obtain v where "size_system_values c ghi ld fuel sf aut lf = Inr v"
      using size_values_ok [OF Inr m] by blast
    then show ?thesis by simp
  qed
qed






subsection \<open>The worked example\<close>

text \<open>
  Claim C1. For a provider series whose minimum is 4.0 and whose median is 4.5, a daily
  load of 10 kWh, a renewables fraction of 0.8, one day of autonomy and a load factor of
  0.6, the run returns, and before the rounding for display the yield per kW and day is 3.0,
  the PV size is 8/3 kW with no seasonality margin (the ratio is 1.125 and the seasonality
  warning is absent), the battery is 10/0.81 kWh, the peak is 10/14.4 kW, the generator
  1.25 times the peak with a nameplate of 5 kW, and the inverter is 0.8 times the PV size.
\<close>

theorem worked_example:
  assumes "fetch_nasa_ghi e lat lon = Inr n"
      and "py_min (values_of n) = Inr 4.0"
      and "median (values_of n) = Inr 4.5"
  shows "\<exists>v. size_system_values c (values_of n) 10 fuel 0.8 1 0.6 = Inr v
            \<and> size_system c e lat lon 10 fuel 0.8 1 0.6 = Inr (size_system_result v)
            \<and> e_pv_per_kw_day v = 3.0
            \<and> seasonality_ratio v = 1.125
            \<and> pv_kw v = 8 / 3
            \<and> warn_seasonality \<notin> set (warnings v)
            \<and> batt_kwh v = 10 / 0.81
            \<and> peak_kw v = 10 / 14.4
            \<and> gen_kw v = 1.25 * (10 / 14.4)
            \<and> gen_nameplate_kw v = 5
            \<and> inverter_kw v = 0.8 * (8 / 3)"
proof -
  obtain v where v: "size_system_values c (values_of n) 10 fuel 0.8 1 0.6 = Inr v"
    using size_values_ok [OF assms(2,3)] by force
  note f = size_values_fields [OF v]
  have w: "ghi_worst v = 4" and m: "ghi_median v = 4.5"
    using v_min [OF v] v_median [OF v] assms(2,3) by simp_all
  have e: "e_pv_per_kw_day v = 3.0" using v_e_pv [OF v] w by (simp add: PR_def)
  have sr: "seasonality_ratio v = 1.125" using v_ratio [OF v] w m by simp
  have pv: "pv_kw v = 8 / 3" using v_pv_kw [OF v] e sr by simp
  have pk: "peak_kw v = 10 / 14.4" using v_peak_kw [OF v] by simp
  have g: "gen_kw v = 1.25 * (10 / 14.4)"
    using v_gen_kw [OF v] pk by (simp add: GENERATOR_SF_def)
  have "\<lceil>gen_kw v / 5.0\<rceil> = 1" unfolding g by (simp add: ceiling_eq_iff)
  then have np: "gen_nameplate_kw v = 5" using v_gen_nameplate_kw [OF v] by simp
  have inv: "inverter_kw v = 0.8 * (8 / 3)"
    using v_inverter_kw [OF v] pv pk by (simp add: INVERTER_UTIL_KW_PER_PV_def)
  have b: "batt_kwh v = 10 / 0.81"
    using v_batt_kwh [OF v]
    by (simp add: BATTERY_EFFECTIVE_def BATTERY_DOD_def BATTERY_ROUNDTRIP_def)
  have ws: "warn_seasonality \<notin> set (warnings v)"
    using v_warnings [OF v] w sr inv pk
    by (simp add: warn_seasonality_def warn_low_sun_def warn_autonomy_def warn_inverter_def)
  show ?thesis
    using v size_system_run [OF assms(1) v] e sr pv ws b pk g np inv by blast
qed

text \<open>The example at a concrete provider answer.\<close>

theorem worked_example_witness:
  "fetch_nasa_ghi (provider_env mild_ghi) 12 77
     = Inr \<lparr> monthly = zip months_order (map JNum mild_ghi), values_of = mild_ghi \<rparr>
   \<and> py_min mild_ghi = Inr 4.0 \<and> median mild_ghi = Inr 4.5
   \<and> (\<exists>v. size_system_values module_costs mild_ghi 10 1.2 0.8 1 0.6 = Inr v
      \<and> size_system module_costs (provider_env mild_ghi) 12 77 10 1.2 0.8 1 0.6
          = Inr (size_system_result v)
      \<and> e_pv_per_kw_day v = 3.0
      \<and> seasonality_ratio v = 1.125
      \<and> pv_kw v = 8 / 3
      \<and> warn_seasonality \<notin> set (warnings v)
      \<and> batt_kwh v = 10 / 0.81
      \<and> peak_kw v = 10 / 14.4
      \<and> gen_kw v = 1.25 * (10 / 14.4)
      \<and> gen_nameplate_kw v = 5
      \<and> inverter_kw v = 0.8 * (8 / 3))"
proof -
  have f: "fetch_nasa_ghi (provider_env mild_ghi) 12 77
             = Inr \<lparr> monthly = zip months_order (map JNum mild_ghi), values_of = mild_ghi \<rparr>"
    by (simp add: fetch_nasa_ghi_def provider_env_def provider_response_def rbind_def
        py_get_def months_order_def mild_ghi_def)
  have mn: "py_min mild_ghi = Inr 4.0" by (simp add: mild_ghi_def)
  have md: "median mild_ghi = Inr 4.5" by (simp add: mild_ghi_def median_def Let_def)
  show ?thesis
    using f mn md worked_example [OF f, of module_costs "1.2"]
    unfolding nasa.select_convs by blast
qed


subsection \<open>Inverter and peak load\<close>

text \<open>
  Claim C3. For a positive provider series the run returns with the inverter size equal to
  the larger of the peak load and 0.8 times the PV size, hence at least the peak load, and
  the warning about an undersized inverter is in the list of warnings neither before nor
  after the dictionary is built.
\<close>

theorem inverter_covers_peak:
  assumes "fetch_nasa_ghi e lat lon = Inr n"
      and "\<forall>x\<in>set (values_of n). 0 < x"
  shows "\<exists>v. size_system_values c (values_of n) ld fuel sf aut lf = Inr v
            \<and> size_system c e lat lon ld fuel sf aut lf = Inr (size_system_result v)
            \<and> inverter_kw v = max (peak_kw v) (INVERTER_UTIL_KW_PER_PV * pv_kw v)
            \<and> inverter_kw v \<ge> peak_kw v
            \<and> warn_inverter \<notin> set (warnings v)
            \<and> warn_inverter \<notin> set (out_warnings (size_system_result v))"
proof -
  obtain v where v: "size_system_values c (values_of n) ld fuel sf aut lf = Inr v"
    and r: "size_system c e lat lon ld fuel sf aut lf = Inr (size_system_result v)"
    using valid_run [OF assms(1,2)] by blast
  have ge: "inverter_kw v \<ge> peak_kw v" using v_inverter_kw [OF v] by simp
  have w: "warn_inverter \<notin> set (warnings v)"
    using v_warnings [OF v] ge
    by (simp add: warn_seasonality_def warn_low_sun_def warn_autonomy_def warn_inverter_def)
  then have "warn_inverter \<notin> set (out_warnings (size_system_result v))"
    by (simp add: size_system_result_def)
  then show ?thesis using v r ge w v_inverter_kw [OF v] by blast
qed

theorem inverter_covers_peak_witness:
  "\<exists>v. size_system_values module_costs seasonal_ghi 250 1.2 0.6 0.5 0.5 = Inr v
      \<and> size_system module_costs (provider_env seasonal_ghi) (-33) 18 250 1.2 0.6 0.5 0.5
          = Inr (size_system_result v)
      \<and> inverter_kw v = max (peak_kw v) (INVERTER_UTIL_KW_PER_PV * pv_kw v)
      \<and> inverter_kw v \<ge> peak_kw v
      \<and> warn_inverter \<notin> set (warnings v)
      \<and> warn_inverter \<notin> set (out_warnings (size_system_result v))"
proof -
  have f: "fetch_nasa_ghi (provider_env seasonal_ghi) (-33) 18
             = Inr \<lparr> monthly = zip months_order (map JNum seasonal_ghi),
                     values_of = seasonal_ghi \<rparr>"
    by (simp add: fetch_nasa_ghi_def provider_env_def provider_response_def rbind_def
        py_get_def months_order_def seasonal_ghi_def)
  have p: "\<forall>x\<in>set (values_of \<lparr> monthly = zip months_order (map JNum seasonal_ghi),
                                values_of = seasonal_ghi \<rparr>). 0 < x"
    by (simp add: seasonal_ghi_def)
  show ?thesis
    using inverter_covers_peak [OF f p, of module_costs 250 "1.2" "0.6" "0.5" "0.5"]
    unfolding nasa.select_convs by blast
qed

subsection \<open>Seasonality margin\<close>

text \<open>
  Claim C4, as amended. For a positive provider series the run returns; when the median
  of the series divided by its minimum exceeds 1.4, the PV size before the rounding for
  display is the unmargined size (daily load times renewables fraction over minimum times
  \<open>PR\<close>) times 1.15 and the seasonality warning is in the returned list; otherwise the PV
  size is the unmargined size and the warning is absent. The value returned under the key
  \<^verbatim>\<open>pv_kw\<close> is this size rounded to one decimal place.
\<close>

theorem seasonality_margin:
  assumes "fetch_nasa_ghi e lat lon = Inr n"
      and "\<forall>x\<in>set (values_of n). 0 < x"
  shows "\<exists>v. size_system_values c (values_of n) ld fuel sf aut lf = Inr v
            \<and> size_system c e lat lon ld fuel sf aut lf = Inr (size_system_result v)
            \<and> py_min (values_of n) = Inr (ghi_worst v)
            \<and> median (values_of n) = Inr (ghi_median v)
            \<and> (if ghi_median v / ghi_worst v > 1.4
               then pv_kw v = ld * sf / (ghi_worst v * PR) * 1.15
                    \<and> warn_seasonality \<in> set (out_warnings (size_system_result v))
               else pv_kw v = ld * sf / (ghi_worst v * PR)
                    \<and> warn_seasonality \<notin> set (out_warnings (size_system_result v)))
            \<and> out_pv_kw (size_system_result v) = py_round (pv_kw v) 1"
proof -
  obtain v where v: "size_system_values c (values_of n) ld fuel sf aut lf = Inr v"
    and r: "size_system c e lat lon ld fuel sf aut lf = Inr (size_system_result v)"
    using valid_run [OF assms(1,2)] by blast
  have ge: "\<not> inverter_kw v < peak_kw v" using v_inverter_kw [OF v] by simp
  have ow: "out_warnings (size_system_result v) = warnings v"
    and op: "out_pv_kw (size_system_result v) = py_round (pv_kw v) 1"
    by (simp_all add: size_system_result_def rnd_def)
  have m: "if ghi_median v / ghi_worst v > 1.4
           then pv_kw v = ld * sf / (ghi_worst v * PR) * 1.15
                \<and> warn_seasonality \<in> set (warnings v)
           else pv_kw v = ld * sf / (ghi_worst v * PR)
                \<and> warn_seasonality \<notin> set (warnings v)"
  proof (cases "ghi_median v / ghi_worst v > 1.4")
    case True
    then have s: "seasonality_ratio v > 1.4" using v_ratio [OF v] by simp
    have "pv_kw v = ld * sf / (ghi_worst v * PR) * 1.15"
      using v_pv_kw [OF v] s v_e_pv [OF v] by simp
    moreover have "warn_seasonality \<in> set (warnings v)"
      unfolding v_warnings [OF v] using s by simp
    ultimately show ?thesis using True by simp
  next
    case False
    then have s: "\<not> seasonality_ratio v > 1.4" using v_ratio [OF v] by simp
    have "pv_kw v = ld * sf / (ghi_worst v * PR)"
      using v_pv_kw [OF v] s v_e_pv [OF v] by simp
    moreover have "warn_seasonality \<notin> set (warnings v)"
      unfolding v_warnings [OF v] using s ge warn_distinct by simp
    ultimately show ?thesis using False by simp
  qed
  show ?thesis
    by (intro exI [of _ v] conjI v r v_min [OF v] v_median [OF v] m [folded ow] op)
qed

text \<open>
  One series on each side of the threshold.
\<close>

theorem seasonality_margin_witness:
  "(\<exists>v. size_system module_costs (provider_env seasonal_ghi) (-33) 18 10 1.2 0.8 1 0.6
           = Inr (size_system_result v)
       \<and> py_min seasonal_ghi = Inr (ghi_worst v)
       \<and> median seasonal_ghi = Inr (ghi_median v)
       \<and> ghi_median v / ghi_worst v > 1.4
       \<and> pv_kw v = 10 * 0.8 / (ghi_worst v * PR) * 1.15
       \<and> warn_seasonality \<in> set (out_warnings (size_system_result v))
       \<and> out_pv_kw (size_system_result v) = py_round (pv_kw v) 1)
   \<and> (\<exists>v. size_system module_costs (provider_env mild_ghi) 12 77 10 1.2 0.8 1 0.6
           = Inr (size_system_result v)
       \<and> py_min mild_ghi = Inr (ghi_worst v)
       \<and> median mild_ghi = Inr (ghi_median v)
       \<and> ghi_median v / ghi_worst v \<le> 1.4
       \<and> pv_kw v = 10 * 0.8 / (ghi_worst v * PR)
       \<and> warn_seasonality \<notin> set (out_warnings (size_system_result v))
       \<and> out_pv_kw (size_system_result v) = py_round (pv_kw v) 1)"
proof -
  have f1: "fetch_nasa_ghi (provider_env seasonal_ghi) (-33) 18
             = Inr \<lparr> monthly = zip months_order (map JNum seasonal_ghi),
                     values_of = seasonal_ghi \<rparr>"
    by (simp add: fetch_nasa_ghi_def provider_env_def provider_response_def rbind_def
        py_get_def months_order_def seasonal_ghi_def)
  have p1: "\<forall>x\<in>set (values_of \<lparr> monthly = zip months_order (map JNum seasonal_ghi),
                                values_of = seasonal_ghi \<rparr>). 0 < x"
    by (simp add: seasonal_ghi_def)
  have f2: "fetch_nasa_ghi (provider_env mild_ghi) 12 77
             = Inr \<lparr> monthly = zip months_order (map JNum mild_ghi), values_of = mild_ghi \<rparr>"
    by (simp add: fetch_nasa_ghi_def provider_env_def provider_response_def rbind_def
        py_get_def months_order_def mild_ghi_def)
  have p2: "\<forall>x\<in>set (values_of \<lparr> monthly = zip months_order (map JNum mild_ghi),
                                values_of = mild_ghi \<rparr>). 0 < x"
    by (simp add: mild_ghi_def)
  have mn1: "py_min seasonal_ghi = Inr 2.0" by (simp add: seasonal_ghi_def)
  have md1: "median seasonal_ghi = Inr 3.25"
    by (simp add: seasonal_ghi_def median_def Let_def)
  have mn2: "py_min mild_ghi = Inr 4.0" by (simp add: mild_ghi_def)
  have md2: "median mild_ghi = Inr 4.5" by (simp add: mild_ghi_def median_def Let_def)
  obtain v1 where v1:
      "size_system module_costs (provider_env seasonal_ghi) (-33) 18 10 1.2 0.8 1 0.6
         = Inr (size_system_result v1)"
      "py_min seasonal_ghi = Inr (ghi_worst v1)"
      "median seasonal_ghi = Inr (ghi_median v1)"
      "if ghi_median v1 / ghi_worst v1 > 1.4
       then pv_kw v1 = 10 * 0.8 / (ghi_worst v1 * PR) * 1.15
            \<and> warn_seasonality \<in> set (out_warnings (size_system_result v1))
       else pv_kw v1 = 10 * 0.8 / (ghi_worst v1 * PR)
            \<and> warn_seasonality \<notin> set (out_warnings (size_system_result v1))"
      "out_pv_kw (size_system_result v1) = py_round (pv_kw v1) 1"
    using seasonality_margin [OF f1 p1, of module_costs 10 "1.2" "0.8" 1 "0.6"]
    unfolding nasa.select_convs by blast
  have r1: "ghi_median v1 / ghi_worst v1 > 1.4"
    using v1(2,3) unfolding mn1 md1 by simp
  obtain v2 where v2:
      "size_system module_costs (provider_env mild_ghi) 12 77 10 1.2 0.8 1 0.6
         = Inr (size_system_result v2)"
      "py_min mild_ghi = Inr (ghi_worst v2)"
      "median mild_ghi = Inr (ghi_median v2)"
      "if ghi_median v2 / ghi_worst v2 > 1.4
       then pv_kw v2 = 10 * 0.8 / (ghi_worst v2 * PR) * 1.15
            \<and> warn_seasonality \<in> set (out_warnings (size_system_result v2))
       else pv_kw v2 = 10 * 0.8 / (ghi_worst v2 * PR)
            \<and> warn_seasonality \<notin> set (out_warnings (size_system_result v2))"
      "out_pv_kw (size_system_result v2) = py_round (pv_kw v2) 1"
    using seasonality_margin [OF f2 p2, of module_costs 10 "1.2" "0.8" 1 "0.6"]
    unfolding nasa.select_convs by blast
  have r2: "ghi_median v2 / ghi_worst v2 \<le> 1.4"
    using v2(2,3) unfolding mn2 md2 by simp
  then have n2: "\<not> ghi_median v2 / ghi_worst v2 > 1.4" by simp
  show ?thesis
    using v1(1,2,3,5) r1 v1(4) [unfolded if_P [OF r1]]
          v2(1,2,3,5) r2 v2(4) [unfolded if_not_P [OF n2]]
    by blast
qed

text \<open>
  Claim C4 as first stated fails on the returned value: for a series with minimum 2.0 and
  median 3.25, a load of 10 and a fraction of 0.8, the unmargined size times 1.15 is 92/15
  while the dictionary holds 6.1.
\<close>

theorem returned_pv_kw_rounded:
  "py_min seasonal_ghi = Inr 2.0 \<and> median seasonal_ghi = Inr 3.25
   \<and> (3.25 :: real) / 2.0 > 1.4
   \<and> map_sum id out_pv_kw
        (size_system module_costs (provider_env seasonal_ghi) (-33) 18 10 1.2 0.8 1 0.6)
       = Inr 6.1
   \<and> 10 * 0.8 / (2.0 * PR) * 1.15 \<noteq> (6.1 :: real)"
proof -
  have f: "fetch_nasa_ghi (provider_env seasonal_ghi) (-33) 18
             = Inr \<lparr> monthly = zip months_order (map JNum seasonal_ghi),
                     values_of = seasonal_ghi \<rparr>"
    by (simp add: fetch_nasa_ghi_def provider_env_def provider_response_def rbind_def
        py_get_def months_order_def seasonal_ghi_def)
  have mn: "py_min seasonal_ghi = Inr 2.0" by (simp add: seasonal_ghi_def)
  have md: "median seasonal_ghi = Inr 3.25"
    by (simp add: seasonal_ghi_def median_def Let_def)
  obtain v where v: "size_system_values module_costs seasonal_ghi 10 1.2 0.8 1 0.6 = Inr v"
    using size_values_ok [OF mn md] by force
  have r: "size_system module_costs (provider_env seasonal_ghi) (-33) 18 10 1.2 0.8 1 0.6
             = Inr (size_system_result v)"
    using size_system_run [OF f] v by simp
  have w: "ghi_worst v = 2" and m: "ghi_median v = 3.25"
    using v_min [OF v] v_median [OF v] mn md by simp_all
  have pv: "pv_kw v = 92 / 15"
    using v_pv_kw [OF v] v_ratio [OF v] v_e_pv [OF v] w m by (simp add: PR_def)
  have "py_round (92 / 15) 1 = 6.1"
    by (simp add: py_round_def round_half_even_def)
  moreover have "out_pv_kw (size_system_result v) = py_round (pv_kw v) 1"
    by (simp add: size_system_result_def rnd_def)
  ultimately have "out_pv_kw (size_system_result v) = 6.1"
    unfolding pv by simp
  then show ?thesis using mn md unfolding r by (simp add: PR_def)
qed

subsection \<open>Non-positive irradiance\<close>

text \<open>
  Claim C5. A fetched series has twelve values. When its minimum is at most 0 the run
  raises the ValueError with the message about zero PV output and returns nothing; when the
  minimum is positive the run returns a result.
\<close>

theorem zero_pv_output:
  assumes "fetch_nasa_ghi e lat lon = Inr n"
  shows "length (values_of n) = 12
       \<and> py_min (values_of n) = Inr (Min (set (values_of n)))
       \<and> (if Min (set (values_of n)) \<le> 0
          then size_system c e lat lon ld fuel sf aut lf
                 = Inl (ValueError ''Computed zero PV output; invalid GHI.'')
          else (\<exists>r. size_system c e lat lon ld fuel sf aut lf = Inr r))"
proof -
  have len: "length (values_of n) = 12" by (rule fetch_length [OF assms])
  then have ne: "values_of n \<noteq> []" by auto
  note mn = py_min_Min [OF ne]
  obtain m where m: "median (values_of n) = Inr m" using median_ok [OF ne] by blast
  show ?thesis
  proof (cases "Min (set (values_of n)) \<le> 0")
    case True
    have "size_system_values c (values_of n) ld fuel sf aut lf
            = Inl (ValueError ''Computed zero PV output; invalid GHI.'')"
      by (rule size_values_zero_pv [OF mn m True])
    then have "size_system c e lat lon ld fuel sf aut lf
                 = Inl (ValueError ''Computed zero PV output; invalid GHI.'')"
      using assms by (simp add: size_system_def rbind_def)
    then show ?thesis using len mn True by simp
  next
    case False
    then have "0 < Min (set (values_of n))" by simp
    then obtain v where v: "size_system_values c (values_of n) ld fuel sf aut lf = Inr v"
      using size_values_ok [OF mn m] by blast
    show ?thesis using len mn False size_system_run [OF assms v] by simp
  qed
qed

text \<open>
  A polar series with dark months, and a mild one.
\<close>

theorem zero_pv_output_witness:
  "Min (set polar_ghi) \<le> 0
   \<and> size_system module_costs (provider_env polar_ghi) 78 15 10 1.2 0.8 1 0.6
       = Inl (ValueError ''Computed zero PV output; invalid GHI.'')
   \<and> \<not> Min (set mild_ghi) \<le> 0
   \<and> (\<exists>r. size_system module_costs (provider_env mild_ghi) 12 77 10 1.2 0.8 1 0.6 = Inr r)"
proof -
  have f1: "fetch_nasa_ghi (provider_env polar_ghi) 78 15
             = Inr \<lparr> monthly = zip months_order (map JNum polar_ghi), values_of = polar_ghi \<rparr>"
    by (simp add: fetch_nasa_ghi_def provider_env_def provider_response_def rbind_def
        py_get_def months_order_def polar_ghi_def)
  have f2: "fetch_nasa_ghi (provider_env mild_ghi) 12 77
             = Inr \<lparr> monthly = zip months_order (map JNum mild_ghi), values_of = mild_ghi \<rparr>"
    by (simp add: fetch_nasa_ghi_def provider_env_def provider_response_def rbind_def
        py_get_def months_order_def mild_ghi_def)
  have m1: "Min (set polar_ghi) \<le> 0"
    unfolding polar_ghi_def Min.set_eq_fold by simp
  have m2: "\<not> Min (set mild_ghi) \<le> 0"
    unfolding mild_ghi_def Min.set_eq_fold by simp
  note a = zero_pv_output [OF f1, of module_costs 10 "1.2" "0.8" 1 "0.6",
      unfolded nasa.select_convs if_P [OF m1]]
  note b = zero_pv_output [OF f2, of module_costs 10 "1.2" "0.8" 1 "0.6",
      unfolded nasa.select_convs if_not_P [OF m2]]
  show ?thesis using a b m1 m2 by blast
qed

subsection \<open>Levelized cost and the zero load\<close>

text \<open>
  Claim C10. No run of the computation ends in a division by zero, whatever the series.
  For a positive provider series the run returns: when the annual load is positive the
  levelized cost is the total annual cost over the annual load, both before rounding, and
  the dictionary holds it rounded to two decimals; when the annual load is not positive
  the levelized cost is the infinite value, in the variable and in the dictionary.
\<close>

theorem lcoe_defined:
  assumes "fetch_nasa_ghi e lat lon = Inr n"
      and "\<forall>x\<in>set (values_of n). 0 < x"
  shows "size_system_values c ghi ld fuel sf aut lf \<noteq> Inl ZeroDivisionError
       \<and> (\<exists>v. size_system_values c (values_of n) ld fuel sf aut lf = Inr v
            \<and> size_system c e lat lon ld fuel sf aut lf = Inr (size_system_result v)
            \<and> annual_load v = ld * 365
            \<and> (if annual_load v > 0
               then lcoe v = Fin (total_annual_cost v / annual_load v)
                    \<and> out_lcoe (size_system_result v)
                        = Fin (py_round (total_annual_cost v / annual_load v) 2)
               else lcoe v = PosInf \<and> out_lcoe (size_system_result v) = PosInf))"
proof -
  obtain v where v: "size_system_values c (values_of n) ld fuel sf aut lf = Inr v"
    and r: "size_system c e lat lon ld fuel sf aut lf = Inr (size_system_result v)"
    using valid_run [OF assms(1,2)] by blast
  have al: "annual_load v = ld * 365" using v_annual_load [OF v] by simp
  have o: "out_lcoe (size_system_result v) = xround (lcoe v) 2"
    by (simp add: size_system_result_def)
  have b: "if annual_load v > 0
           then lcoe v = Fin (total_annual_cost v / annual_load v)
                \<and> out_lcoe (size_system_result v)
                    = Fin (py_round (total_annual_cost v / annual_load v) 2)
           else lcoe v = PosInf \<and> out_lcoe (size_system_result v) = PosInf"
  proof (cases "annual_load v > 0")
    case True
    then have "lcoe v = Fin (total_annual_cost v / annual_load v)"
      using v_lcoe [OF v] by simp
    then show ?thesis using True o by simp
  next
    case False
    then have "lcoe v = PosInf" using v_lcoe [OF v] by simp
    then show ?thesis using False o by simp
  qed
  show ?thesis
    by (intro conjI size_values_no_zero_division exI [of _ v] v r al b)
qed

text \<open>
  A load of zero and a load of ten.
\<close>

theorem lcoe_defined_witness:
  "(\<exists>v. size_system module_costs (provider_env mild_ghi) 12 77 0 1.2 0.8 1 0.6
           = Inr (size_system_result v)
       \<and> annual_load v = 0
       \<and> lcoe v = PosInf \<and> out_lcoe (size_system_result v) = PosInf)
   \<and> (\<exists>v. size_system module_costs (provider_env mild_ghi) 12 77 10 1.2 0.8 1 0.6
           = Inr (size_system_result v)
       \<and> annual_load v = 3650
       \<and> lcoe v = Fin (total_annual_cost v / annual_load v)
       \<and> out_lcoe (size_system_result v)
           = Fin (py_round (total_annual_cost v / annual_load v) 2))"
proof -
  have f: "fetch_nasa_ghi (provider_env mild_ghi) 12 77
             = Inr \<lparr> monthly = zip months_order (map JNum mild_ghi), values_of = mild_ghi \<rparr>"
    by (simp add: fetch_nasa_ghi_def provider_env_def provider_response_def rbind_def
        py_get_def months_order_def mild_ghi_def)
  have p: "\<forall>x\<in>set (values_of \<lparr> monthly = zip months_order (map JNum mild_ghi),
                                values_of = mild_ghi \<rparr>). 0 < x"
    by (simp add: mild_ghi_def)
  obtain v0 where v0:
      "size_system module_costs (provider_env mild_ghi) 12 77 0 1.2 0.8 1 0.6
         = Inr (size_system_result v0)"
      "annual_load v0 = 0 * 365"
      "if annual_load v0 > 0
       then lcoe v0 = Fin (total_annual_cost v0 / annual_load v0)
            \<and> out_lcoe (size_system_result v0)
                = Fin (py_round (total_annual_cost v0 / annual_load v0) 2)
       else lcoe v0 = PosInf \<and> out_lcoe (size_system_result v0) = PosInf"
    using lcoe_defined [OF f p, of module_costs "[]" 0 "1.2" "0.8" 1 "0.6"] by blast
  have z: "annual_load v0 = 0" using v0(2) by simp
  then have nz: "\<not> annual_load v0 > 0" by simp
  obtain v1 where v1:
      "size_system module_costs (provider_env mild_ghi) 12 77 10 1.2 0.8 1 0.6
         = Inr (size_system_result v1)"
      "annual_load v1 = 10 * 365"
      "if annual_load v1 > 0
       then lcoe v1 = Fin (total_annual_cost v1 / annual_load v1)
            \<and> out_lcoe (size_system_result v1)
                = Fin (py_round (total_annual_cost v1 / annual_load v1) 2)
       else lcoe v1 = PosInf \<and> out_lcoe (size_system_result v1) = PosInf"
    using lcoe_defined [OF f p, of module_costs "[]" 10 "1.2" "0.8" 1 "0.6"] by blast
  have a: "annual_load v1 = 3650" using v1(2) by simp
  then have pz: "annual_load v1 > 0" by simp
  show ?thesis
    using v0(1) z v0(3) [unfolded if_not_P [OF nz]]
          v1(1) a v1(3) [unfolded if_P [OF pz]]
    by blast
qed

subsection \<open>Generator nameplate\<close>

text \<open>
  Claim C7. For a positive provider series the run returns; the peak load is the daily load
  over 24 times the load factor (floored at 0.05), the generator size is \<open>GENERATOR_SF\<close>
  times the peak, and the generator nameplate is a multiple of 5 kW, at least
  \<open>GENERATOR_SF\<close> times the peak load and less than one step of 5 kW above it (the next
  step up); the value returned under the key \<^verbatim>\<open>gen_kw\<close> is this nameplate.
\<close>

theorem generator_nameplate_step:
  assumes "fetch_nasa_ghi e lat lon = Inr n"
      and "\<forall>x\<in>set (values_of n). 0 < x"
  shows "\<exists>v. size_system_values c (values_of n) ld fuel sf aut lf = Inr v
            \<and> size_system c e lat lon ld fuel sf aut lf = Inr (size_system_result v)
            \<and> peak_kw v = ld / (24 * max 0.05 lf)
            \<and> gen_kw v = GENERATOR_SF * peak_kw v
            \<and> (\<exists>k::int. gen_nameplate_kw v = 5 * of_int k)
            \<and> gen_nameplate_kw v \<ge> GENERATOR_SF * peak_kw v
            \<and> gen_nameplate_kw v < GENERATOR_SF * peak_kw v + 5
            \<and> out_gen_kw (size_system_result v) = gen_nameplate_kw v"
proof -
  obtain v where v: "size_system_values c (values_of n) ld fuel sf aut lf = Inr v"
    and r: "size_system c e lat lon ld fuel sf aut lf = Inr (size_system_result v)"
    using valid_run [OF assms(1,2)] by blast
  have pk: "peak_kw v = ld / (24 * max 0.05 lf)" using v_peak_kw [OF v] by simp
  note gk = v_gen_kw [OF v]
  define k where "k = \<lceil>gen_kw v / 5\<rceil>"
  have np: "gen_nameplate_kw v = 5 * of_int k"
    using v_gen_nameplate_kw [OF v] by (simp add: k_def)
  then have mult: "\<exists>k::int. gen_nameplate_kw v = 5 * of_int k" by blast
  have "gen_kw v / 5 \<le> of_int k" unfolding k_def by (rule le_of_int_ceiling)
  then have "gen_kw v \<le> gen_nameplate_kw v" using np by simp
  then have lo: "gen_nameplate_kw v \<ge> GENERATOR_SF * peak_kw v" using gk by simp
  have "of_int k < gen_kw v / 5 + 1" unfolding k_def
    using ceiling_correct [of "gen_kw v / 5"] by linarith
  then have "gen_nameplate_kw v < gen_kw v + 5" using np by simp
  then have hi: "gen_nameplate_kw v < GENERATOR_SF * peak_kw v + 5" using gk by simp
  have "out_gen_kw (size_system_result v) = rnd (of_int (5 * k)) 0"
    using np by (simp add: size_system_result_def)
  then have out: "out_gen_kw (size_system_result v) = gen_nameplate_kw v"
    using np by (simp only: rnd0_of_int)
  show ?thesis by (intro exI [of _ v] conjI v r pk gk mult lo hi out)
qed

text \<open>
  A daily load of 250 kWh at a load factor of 0.5: the peak is 250/12 kW and the
  nameplate 30 kW.
\<close>

theorem generator_nameplate_step_witness:
  "\<exists>v. size_system_values module_costs seasonal_ghi 250 1.2 0.6 0.5 0.5 = Inr v
      \<and> size_system module_costs (provider_env seasonal_ghi) (-33) 18 250 1.2 0.6 0.5 0.5
          = Inr (size_system_result v)
      \<and> peak_kw v = 250 / 12
      \<and> gen_kw v = GENERATOR_SF * peak_kw v
      \<and> (\<exists>k::int. gen_nameplate_kw v = 5 * of_int k)
      \<and> gen_nameplate_kw v \<ge> GENERATOR_SF * peak_kw v
      \<and> gen_nameplate_kw v < GENERATOR_SF * peak_kw v + 5
      \<and> gen_nameplate_kw v = 30
      \<and> out_gen_kw (size_system_result v) = gen_nameplate_kw v"
proof -
  have f: "fetch_nasa_ghi (provider_env seasonal_ghi) (-33) 18
             = Inr \<lparr> monthly = zip months_order (map JNum seasonal_ghi),
                     values_of = seasonal_ghi \<rparr>"
    by (simp add: fetch_nasa_ghi_def provider_env_def provider_response_def rbind_def
        py_get_def months_order_def seasonal_ghi_def)
  have p: "\<forall>x\<in>set (values_of \<lparr> monthly = zip months_order (map JNum seasonal_ghi),
                                values_of = seasonal_ghi \<rparr>). 0 < x"
    by (simp add: seasonal_ghi_def)
  obtain v k where v:
      "size_system_values module_costs seasonal_ghi 250 1.2 0.6 0.5 0.5 = Inr v"
      "size_system module_costs (provider_env seasonal_ghi) (-33) 18 250 1.2 0.6 0.5 0.5
         = Inr (size_system_result v)"
      "peak_kw v = 250 / (24 * max 0.05 0.5)"
      "gen_kw v = GENERATOR_SF * peak_kw v"
      "gen_nameplate_kw v = 5 * real_of_int k"
      "gen_nameplate_kw v \<ge> GENERATOR_SF * peak_kw v"
      "gen_nameplate_kw v < GENERATOR_SF * peak_kw v + 5"
      "out_gen_kw (size_system_result v) = gen_nameplate_kw v"
    using generator_nameplate_step [OF f p, of module_costs 250 "1.2" "0.6" "0.5" "0.5"]
    unfolding nasa.select_convs by blast
  have pk: "peak_kw v = 250 / 12" using v(3) by simp
  have "5 * real_of_int k \<ge> 1.25 * (250 / 12)"
    using v(5,6) pk by (simp add: GENERATOR_SF_def)
  then have "real_of_int k > 5" by simp
  then have k1: "k \<ge> 6" by linarith
  have "5 * real_of_int k < 1.25 * (250 / 12) + 5"
    using v(5,7) pk by (simp add: GENERATOR_SF_def)
  then have "real_of_int k < 7" by simp
  then have k2: "k \<le> 6" by linarith
  have np: "gen_nameplate_kw v = 30" using v(5) k1 k2 by simp
  have mult: "\<exists>k::int. gen_nameplate_kw v = 5 * of_int k" using v(5) by blast
  show ?thesis by (intro exI [of _ v] conjI v(1,2) pk v(4) mult v(6,7) np v(8))
qed

subsection \<open>Bill of materials\<close>

text \<open>
  Claim C8. For a positive provider series the run returns; the PV size is the daily load
  times the renewables fraction over the minimum of the series times \<open>PR\<close>, with the
  factor 1.15 when the median over the minimum exceeds 1.4, and the battery size is the
  daily load times the autonomy over \<open>BATTERY_EFFECTIVE\<close>. The counts cover these sizes:
  the panels at \<open>PANEL_WATTS\<close> watts give at least the PV size and the battery modules at
  \<open>BATTERY_UNIT_KWH\<close> give at least the battery size, while one unit less would not; the
  counts and unit sizes of the returned dictionary are these.
\<close>

theorem bom_counts_cover:
  assumes "fetch_nasa_ghi e lat lon = Inr n"
      and "\<forall>x\<in>set (values_of n). 0 < x"
  shows "\<exists>v. size_system_values c (values_of n) ld fuel sf aut lf = Inr v
            \<and> size_system c e lat lon ld fuel sf aut lf = Inr (size_system_result v)
            \<and> py_min (values_of n) = Inr (ghi_worst v)
            \<and> median (values_of n) = Inr (ghi_median v)
            \<and> pv_kw v = (if ghi_median v / ghi_worst v > 1.4
                         then ld * sf / (ghi_worst v * PR) * 1.15
                         else ld * sf / (ghi_worst v * PR))
            \<and> batt_kwh v = ld * aut / BATTERY_EFFECTIVE
            \<and> of_int (panel_count v) * of_int PANEL_WATTS / 1000 \<ge> pv_kw v
            \<and> of_int (battery_count v) * BATTERY_UNIT_KWH \<ge> batt_kwh v
            \<and> of_int (panel_count v - 1) * of_int PANEL_WATTS / 1000 < pv_kw v
            \<and> of_int (battery_count v - 1) * BATTERY_UNIT_KWH < batt_kwh v
            \<and> out_panel_count (size_system_result v) = panel_count v
            \<and> out_panel_w (size_system_result v) = PANEL_WATTS
            \<and> out_battery_count (size_system_result v) = battery_count v
            \<and> out_battery_unit_kwh (size_system_result v) = BATTERY_UNIT_KWH"
proof -
  obtain v where v: "size_system_values c (values_of n) ld fuel sf aut lf = Inr v"
    and r: "size_system c e lat lon ld fuel sf aut lf = Inr (size_system_result v)"
    using valid_run [OF assms(1,2)] by blast
  have pv: "pv_kw v = (if ghi_median v / ghi_worst v > 1.4
                         then ld * sf / (ghi_worst v * PR) * 1.15
                         else ld * sf / (ghi_worst v * PR))"
    unfolding v_pv_kw [OF v] v_ratio [OF v] v_e_pv [OF v] ..
  have bt: "batt_kwh v = ld * aut / BATTERY_EFFECTIVE" by (rule v_batt_kwh [OF v])
  have "pv_kw v * 1000 / 400 \<le> of_int (panel_count v)"
    using v_panel_count [OF v] by (simp add: PANEL_WATTS_def le_of_int_ceiling)
  then have p: "of_int (panel_count v) * of_int PANEL_WATTS / 1000 \<ge> pv_kw v"
    by (simp add: PANEL_WATTS_def)
  have "of_int (panel_count v) - 1 < pv_kw v * 1000 / 400"
    using v_panel_count [OF v] by (simp add: PANEL_WATTS_def) linarith
  then have p': "of_int (panel_count v - 1) * of_int PANEL_WATTS / 1000 < pv_kw v"
    by (simp add: PANEL_WATTS_def)
  have "batt_kwh v / 5 \<le> of_int (battery_count v)"
    using v_battery_count [OF v] by (simp add: BATTERY_UNIT_KWH_def le_of_int_ceiling)
  then have b: "of_int (battery_count v) * BATTERY_UNIT_KWH \<ge> batt_kwh v"
    by (simp add: BATTERY_UNIT_KWH_def)
  have "of_int (battery_count v) - 1 < batt_kwh v / 5"
    using v_battery_count [OF v] by (simp add: BATTERY_UNIT_KWH_def) linarith
  then have b': "of_int (battery_count v - 1) * BATTERY_UNIT_KWH < batt_kwh v"
    by (simp add: BATTERY_UNIT_KWH_def)
  have o: "out_panel_count (size_system_result v) = panel_count v"
    "out_panel_w (size_system_result v) = PANEL_WATTS"
    "out_battery_count (size_system_result v) = battery_count v"
    "out_battery_unit_kwh (size_system_result v) = BATTERY_UNIT_KWH"
    by (simp_all add: size_system_result_def)
  show ?thesis
    by (intro exI [of _ v] conjI v r v_min [OF v] v_median [OF v] pv bt p b p' b' o)
qed

text \<open>
  The worked example: 8/3 kW of PV and 10/0.81 kWh of battery.
\<close>

theorem bom_counts_cover_witness:
  "\<exists>v. size_system_values module_costs mild_ghi 10 1.2 0.8 1 0.6 = Inr v
      \<and> size_system module_costs (provider_env mild_ghi) 12 77 10 1.2 0.8 1 0.6
          = Inr (size_system_result v)
      \<and> pv_kw v = 8 / 3
      \<and> batt_kwh v = 10 / 0.81
      \<and> of_int (panel_count v) * of_int PANEL_WATTS / 1000 \<ge> pv_kw v
      \<and> of_int (battery_count v) * BATTERY_UNIT_KWH \<ge> batt_kwh v
      \<and> of_int (panel_count v - 1) * of_int PANEL_WATTS / 1000 < pv_kw v
      \<and> of_int (battery_count v - 1) * BATTERY_UNIT_KWH < batt_kwh v
      \<and> out_panel_count (size_system_result v) = panel_count v
      \<and> out_battery_count (size_system_result v) = battery_count v"
proof -
  have f: "fetch_nasa_ghi (provider_env mild_ghi) 12 77
             = Inr \<lparr> monthly = zip months_order (map JNum mild_ghi), values_of = mild_ghi \<rparr>"
    by (simp add: fetch_nasa_ghi_def provider_env_def provider_response_def rbind_def
        py_get_def months_order_def mild_ghi_def)
  have p: "\<forall>x\<in>set (values_of \<lparr> monthly = zip months_order (map JNum mild_ghi),
                                values_of = mild_ghi \<rparr>). 0 < x"
    by (simp add: mild_ghi_def)
  have mn: "py_min mild_ghi = Inr 4.0" by (simp add: mild_ghi_def)
  have md: "median mild_ghi = Inr 4.5" by (simp add: mild_ghi_def median_def Let_def)
  obtain v where v:
      "size_system_values module_costs mild_ghi 10 1.2 0.8 1 0.6 = Inr v"
      "size_system module_costs (provider_env mild_ghi) 12 77 10 1.2 0.8 1 0.6
         = Inr (size_system_result v)"
      "py_min mild_ghi = Inr (ghi_worst v)"
      "median mild_ghi = Inr (ghi_median v)"
      "pv_kw v = (if ghi_median v / ghi_worst v > 1.4
                  then 10 * 0.8 / (ghi_worst v * PR) * 1.15
                  else 10 * 0.8 / (ghi_worst v * PR))"
      "batt_kwh v = 10 * 1 / BATTERY_EFFECTIVE"
      "of_int (panel_count v) * of_int PANEL_WATTS / 1000 \<ge> pv_kw v"
      "of_int (battery_count v) * BATTERY_UNIT_KWH \<ge> batt_kwh v"
      "of_int (panel_count v - 1) * of_int PANEL_WATTS / 1000 < pv_kw v"
      "of_int (battery_count v - 1) * BATTERY_UNIT_KWH < batt_kwh v"
      "out_panel_count (size_system_result v) = panel_count v"
      "out_battery_count (size_system_result v) = battery_count v"
    using bom_counts_cover [OF f p, of module_costs 10 "1.2" "0.8" 1 "0.6"]
    unfolding nasa.select_convs by blast
  have w: "ghi_worst v = 4" and m: "ghi_median v = 4.5"
    using v(3,4) unfolding mn md by simp_all
  have pv: "pv_kw v = 8 / 3" using v(5) unfolding w m by (simp add: PR_def)
  have bt: "batt_kwh v = 10 / 0.81"
    using v(6) by (simp add: BATTERY_EFFECTIVE_def BATTERY_DOD_def BATTERY_ROUNDTRIP_def)
  show ?thesis by (intro exI [of _ v] conjI v(1,2) pv bt v(7-12))
qed

subsection \<open>Incomplete provider data\<close>




end
